theory Spec2Isabelle
  imports Complex_Main "HOL-Library.Word"
begin

section \<open>Strings\<close>

text \<open>
  A Python \<open>str\<close> is modelled as a \<open>string\<close> whose characters stand for the code points
  below 256 (the Latin-1 repertoire, which is also what the fallback encoding produces).
  \<open>is_space\<close> is \<open>str.isspace\<close> on one character and the class \<open>\s\<close> of \<open>re\<close>;
  \<open>lower_chr\<close> is \<open>str.lower\<close> on one character.
\<close>

definition is_space :: "char \<Rightarrow> bool" where
  "is_space c = (let n = (of_char c :: nat) in
     (9 \<le> n \<and> n \<le> 13) \<or> (28 \<le> n \<and> n \<le> 32) \<or> n = 133 \<or> n = 160)"

definition lower_chr :: "char \<Rightarrow> char" where
  "lower_chr c = (let n = (of_char c :: nat) in
     if (65 \<le> n \<and> n \<le> 90) \<or> (192 \<le> n \<and> n \<le> 222 \<and> n \<noteq> 215)
     then char_of (n + 32) else c)"

definition lower :: "string \<Rightarrow> string" where
  "lower s = map lower_chr s"

definition strip :: "string \<Rightarrow> string" where
  "strip s = rev (dropWhile is_space (rev (dropWhile is_space s)))"

text \<open>
  \<open>split_by P s\<close> cuts \<open>s\<close> at every character satisfying \<open>P\<close>, as \<open>str.split(sep)\<close> and
  \<open>re.split\<close> of a character class do: the result is never empty, and an empty string
  gives one empty part.
\<close>

fun split_by :: "(char \<Rightarrow> bool) \<Rightarrow> string \<Rightarrow> string list" where
  "split_by P [] = [[]]"
| "split_by P (c # cs) =
     (if P c then [] # split_by P cs
      else (case split_by P cs of [] \<Rightarrow> [[c]] | p # ps \<Rightarrow> (c # p) # ps))"

section \<open>The built-in \<open>float\<close> on a string\<close>

text \<open>
  \<open>float(x)\<close> of a string: characters 133 and 160 count as blanks, an underscore is
  accepted between two digits only, blanks are stripped at both ends (the ASCII blanks
  9 to 13 and 32; the separators 28 to 31 are not stripped here), and the rest must be,
  after an optional sign, \<open>inf\<close>, \<open>infinity\<close> or \<open>nan\<close> in any letter case, or a decimal
  numeral with an optional exponent. Anything else raises \<open>ValueError\<close>, the value
  \<open>None\<close> here. A finite result carries the exact rational value of the numeral; the
  rounding to a double is accounted for where the value is compared (\<open>in_bound\<close> below).
\<close>

datatype pyfloat = Finite rat | Infinite | NaN

definition is_digit :: "char \<Rightarrow> bool" where
  "is_digit c = (let n = (of_char c :: nat) in 48 \<le> n \<and> n \<le> 57)"

definition float_blank :: "char \<Rightarrow> bool" where
  "float_blank c = (let n = (of_char c :: nat) in
     (9 \<le> n \<and> n \<le> 13) \<or> n = 32 \<or> n = 133 \<or> n = 160)"

fun digits_val :: "nat \<Rightarrow> string \<Rightarrow> nat" where
  "digits_val acc [] = acc"
| "digits_val acc (c # cs) = digits_val (10 * acc + (of_char c - 48)) cs"

text \<open>
  Underscores: each one must follow a digit and precede a digit; they are removed.
  \<open>prev\<close> is the previous character of the input (\<open>None\<close> at the start).
\<close>

fun drop_underscores :: "char option \<Rightarrow> string \<Rightarrow> string option" where
  "drop_underscores prev [] = (if prev = Some CHR ''_'' then None else Some [])"
| "drop_underscores prev (c # cs) =
     (if c = CHR ''_'' then
        (case prev of
           None \<Rightarrow> None
         | Some p \<Rightarrow> if is_digit p then drop_underscores (Some c) cs else None)
      else if prev = Some CHR ''_'' \<and> \<not> is_digit c then None
      else map_option ((#) c) (drop_underscores (Some c) cs))"

definition split_sign :: "string \<Rightarrow> bool \<times> string" where
  "split_sign s = (case s of
       [] \<Rightarrow> (False, [])
     | c # cs \<Rightarrow> if c = CHR ''-'' then (True, cs)
                else if c = CHR ''+'' then (False, cs) else (False, s))"

definition parse_exponent :: "string \<Rightarrow> int option" where
  "parse_exponent s = (case s of
       [] \<Rightarrow> Some 0
     | c # cs \<Rightarrow>
         if c = CHR ''e'' \<or> c = CHR ''E'' then
           (let (neg, ds) = split_sign cs in
            if ds \<noteq> [] \<and> list_all is_digit ds
            then Some (if neg then - int (digits_val 0 ds) else int (digits_val 0 ds))
            else None)
         else None)"

definition scale10 :: "rat \<Rightarrow> int \<Rightarrow> rat" where
  "scale10 m e = (if 0 \<le> e then m * 10 ^ nat e else m / 10 ^ nat (- e))"

definition parse_decimal :: "string \<Rightarrow> rat option" where
  "parse_decimal s =
     (let ip = takeWhile is_digit s;
          r1 = dropWhile is_digit s;
          (fp, r2) = (case r1 of
                        [] \<Rightarrow> ([], [])
                      | c # cs \<Rightarrow> if c = CHR ''.''
                                  then (takeWhile is_digit cs, dropWhile is_digit cs)
                                  else ([], r1))
      in if ip = [] \<and> fp = [] then None
         else (case parse_exponent r2 of
                 None \<Rightarrow> None
               | Some e \<Rightarrow>
                   Some (scale10 (of_nat (digits_val 0 (ip @ fp))) (e - int (length fp)))))"

definition float_str :: "string \<Rightarrow> pyfloat option" where
  "float_str x =
     (case drop_underscores None x of
        None \<Rightarrow> None
      | Some u \<Rightarrow>
          (let t = rev (dropWhile float_blank (rev (dropWhile float_blank u)));
               (neg, body) = split_sign t;
               w = lower body
           in if w = ''inf'' \<or> w = ''infinity'' then Some Infinite
              else if w = ''nan'' then Some NaN
              else map_option (\<lambda>q. Finite (if neg then - q else q)) (parse_decimal body)))"

text \<open>
  \<open>in_bound b h f\<close> is the chained comparison \<open>-b <= f <= b\<close> on doubles, for a bound \<open>b\<close>
  that is itself a double with an even significand and \<open>h\<close> half the distance from \<open>b\<close>
  to the next double: rounding to nearest (ties to even) is monotone, so the double
  nearest to \<open>q\<close> is at most \<open>b\<close> exactly when \<open>q \<le> b + h\<close>. Every comparison with a
  NaN is false, and an infinity is outside every bound.
\<close>

fun in_bound :: "rat \<Rightarrow> rat \<Rightarrow> pyfloat \<Rightarrow> bool" where
  "in_bound b h (Finite q) = (- (b + h) \<le> q \<and> q \<le> b + h)"
| "in_bound b h Infinite = False"
| "in_bound b h NaN = False"

section \<open>Data frames\<close>

text \<open>
  A cell holds a string or is missing (NaN, \<open>None\<close> here). A frame has a number of rows
  (the length of its index) and labelled columns, in order; labels may repeat. Rows are
  addressed by position: every series of this program comes from one frame, so aligning
  on the index is aligning by position.
\<close>

type_synonym cell = "string option"
type_synonym series = "cell list"

record frame =
  nrows :: nat
  cols :: "(string \<times> series) list"

datatype error = ValueError | KeyError | AttributeError | UnicodeDecodeError

datatype selection = Series series | DataFrame "series list"

definition columns :: "frame \<Rightarrow> string list" where
  "columns df = map fst (cols df)"

text \<open>\<open>df[label]\<close>: a series when one column has the label, a frame when several have.\<close>

definition getitem :: "frame \<Rightarrow> string \<Rightarrow> error + selection" where
  "getitem df label =
     (case map snd (filter (\<lambda>p. fst p = label) (cols df)) of
        [] \<Rightarrow> Inl KeyError
      | [s] \<Rightarrow> Inr (Series s)
      | ss \<Rightarrow> Inr (DataFrame ss))"

text \<open>
  Reindexing a series to \<open>n\<close> rows: missing positions become NaN, extra ones are dropped.
\<close>

definition align :: "nat \<Rightarrow> series \<Rightarrow> series" where
  "align n s = take n s @ replicate (n - length s) None"

definition put_col :: "string \<Rightarrow> series \<Rightarrow> (string \<times> series) list \<Rightarrow> (string \<times> series) list" where
  "put_col label s cs =
     (if label \<in> set (map fst cs)
      then map (\<lambda>p. if fst p = label then (label, s) else p) cs
      else cs @ [(label, s)])"

text \<open>
  \<open>out[label] = value\<close>. A frame with an empty index takes the index of a non-empty
  series, its other columns being filled with NaN; otherwise the series is aligned.
  A frame value with several columns cannot be stored under one label.
\<close>

definition set_series :: "frame \<Rightarrow> string \<Rightarrow> series \<Rightarrow> frame" where
  "set_series out label s =
     (if nrows out = 0 \<and> s \<noteq> []
      then \<lparr>nrows = length s,
            cols = put_col label s (map (\<lambda>p. (fst p, replicate (length s) None)) (cols out))\<rparr>
      else \<lparr>nrows = nrows out, cols = put_col label (align (nrows out) s) (cols out)\<rparr>)"

definition setitem :: "frame \<Rightarrow> string \<Rightarrow> selection \<Rightarrow> error + frame" where
  "setitem out label v =
     (case v of Series s \<Rightarrow> Inr (set_series out label s) | DataFrame ss \<Rightarrow> Inl ValueError)"

text \<open>\<open>out[label] = ""\<close>: a scalar fills the column.\<close>

definition set_scalar :: "frame \<Rightarrow> string \<Rightarrow> cell \<Rightarrow> frame" where
  "set_scalar out label v =
     \<lparr>nrows = nrows out, cols = put_col label (replicate (nrows out) v) (cols out)\<rparr>"

text \<open>Reading a column of a frame as a series.\<close>

definition get_series :: "frame \<Rightarrow> string \<Rightarrow> error + series" where
  "get_series df label =
     (case getitem df label of
        Inl e \<Rightarrow> Inl e
      | Inr (Series s) \<Rightarrow> Inr s
      | Inr (DataFrame ss) \<Rightarrow> Inl AttributeError)"

text \<open>\<open>df[mask]\<close>: the rows where the boolean mask holds.\<close>

definition select :: "bool list \<Rightarrow> 'a list \<Rightarrow> 'a list" where
  "select keep xs = map snd (filter fst (zip keep xs))"

definition select_rows :: "bool list \<Rightarrow> frame \<Rightarrow> frame" where
  "select_rows keep df =
     \<lparr>nrows = length (filter id (take (nrows df) keep)),
      cols = map (\<lambda>p. (fst p, select keep (snd p))) (cols df)\<rparr>"

text \<open>Sequencing of steps that may raise: the first error ends the run.\<close>

definition and_then :: "error + 'a \<Rightarrow> ('a \<Rightarrow> error + 'b) \<Rightarrow> error + 'b" where
  "and_then m f = (case m of Inl e \<Rightarrow> Inl e | Inr x \<Rightarrow> f x)"

text \<open>\<open>pd.DataFrame(columns=labels)\<close>: the labels are there from the start, with no row.\<close>

definition empty_frame :: "string list \<Rightarrow> frame" where
  "empty_frame labels = \<lparr>nrows = 0, cols = map (\<lambda>c. (c, [])) labels\<rparr>"

text \<open>\<open>out.get(label, dflt)\<close>: the column when the label is there, the default otherwise.\<close>

definition frame_get :: "frame \<Rightarrow> string \<Rightarrow> series \<Rightarrow> error + series" where
  "frame_get out label dflt =
     (if label \<in> set (columns out) then get_series out label else Inr dflt)"

text \<open>
  \<open>s.str.split(sep, expand=True)\<close>: one column per part, as many as the longest row
  has, shorter rows and missing cells padded with NaN; \<open>coords[k]\<close> is its column \<open>k\<close>.
\<close>

definition str_split_expand :: "char \<Rightarrow> series \<Rightarrow> series list" where
  "str_split_expand sep s =
     (let parts = map (map_option (split_by (\<lambda>c. c = sep))) s;
          width = fold max (map (\<lambda>p. case p of None \<Rightarrow> 0 | Some ps \<Rightarrow> length ps) parts) 0
      in map (\<lambda>k. map (\<lambda>p. case p of
                              None \<Rightarrow> None
                            | Some ps \<Rightarrow> if k < length ps then Some (ps ! k) else None) parts)
             [0..<width])"

definition coords_col :: "series list \<Rightarrow> nat \<Rightarrow> error + series" where
  "coords_col coords k = (if k < length coords then Inr (coords ! k) else Inl KeyError)"

text \<open>\<open>s.fillna(v)\<close> and \<open>s.replace(a, b)\<close>, cell by cell: NaN is not the string \<open>a\<close>.\<close>

definition fill_cell :: "string \<Rightarrow> cell \<Rightarrow> cell" where
  "fill_cell v c = (case c of None \<Rightarrow> Some v | Some x \<Rightarrow> Some x)"

definition fillna :: "string \<Rightarrow> series \<Rightarrow> series" where
  "fillna v s = map (fill_cell v) s"

definition replace_cell :: "string \<Rightarrow> string \<Rightarrow> cell \<Rightarrow> cell" where
  "replace_cell a b c = (if c = Some a then Some b else c)"

definition replace_val :: "string \<Rightarrow> string \<Rightarrow> series \<Rightarrow> series" where
  "replace_val a b s = map (replace_cell a b) s"

text \<open>\<open>df.dropna(subset=labels)\<close>: the rows with no NaN in the listed columns.\<close>

fun notna_mask :: "frame \<Rightarrow> string list \<Rightarrow> bool list \<Rightarrow> error + bool list" where
  "notna_mask df [] keep = Inr keep"
| "notna_mask df (l # ls) keep =
     and_then (get_series df l)
       (\<lambda>s. notna_mask df ls (map2 (\<and>) keep (map (\<lambda>c. c \<noteq> None) s)))"

definition dropna :: "string list \<Rightarrow> frame \<Rightarrow> error + frame" where
  "dropna labels df =
     and_then (notna_mask df labels (replicate (nrows df) True))
       (\<lambda>keep. Inr (select_rows keep df))"

section \<open>The schema normaliser of \<open>app.py\<close>\<close>

definition REQUIRED_COLS :: "string list" where
  "REQUIRED_COLS = [''name'', ''type'', ''latitude'', ''longitude'',
                    ''inventory'', ''last_updated'', ''contact'', ''supported_disasters'']"

definition ALIASES :: "(string \<times> string list) list" where
  "ALIASES =
     [(''name'', [''hospital_name'', ''facility name'', ''station name'', ''centre name'',
                  ''center name'', ''name'']),
      (''type'', [''hospital_category'', ''category'', ''hospital_type'', ''centre type'',
                  ''type'']),
      (''latitude'', [''lat'', ''latitude'', ''latitude(dd)'', ''lat_dd'']),
      (''longitude'', [''lon'', ''long'', ''longitude'', ''longitude(dd)'', ''lng'', ''lng_dd'']),
      (''contact'', [''mobile_number'', ''mobile'', ''telephone'', ''phone'', ''contact'',
                     ''phone_no'', ''phone number''])]"

text \<open>Header normalisation: every label is stripped and lowercased.\<close>

definition normalise_header :: "frame \<Rightarrow> frame" where
  "normalise_header df = df\<lparr>cols := map (\<lambda>p. (lower (strip (fst p)), snd p)) (cols df)\<rparr>"

text \<open>
  Step 1, the two nested loops over \<open>ALIASES\<close>: for each target the first candidate
  that is a label of \<open>df\<close> is copied to the target column, and the inner loop breaks.
\<close>

fun map_target :: "frame \<Rightarrow> string \<Rightarrow> string list \<Rightarrow> frame \<Rightarrow> error + frame" where
  "map_target df target [] out = Inr out"
| "map_target df target (cand # rest) out =
     (if cand \<in> set (columns df)
      then and_then (getitem df cand) (setitem out target)
      else map_target df target rest out)"

fun map_aliases :: "frame \<Rightarrow> (string \<times> string list) list \<Rightarrow> frame \<Rightarrow> error + frame" where
  "map_aliases df [] out = Inr out"
| "map_aliases df (tc # rest) out =
     and_then (map_target df (fst tc) (snd tc) out) (map_aliases df rest)"

text \<open>
  Step 2, the split of a combined coordinate column. Its guard asks whether
  \<open>latitude\<close> or \<open>longitude\<close> is not a label of \<open>out\<close>.
\<close>

definition split_taken :: "frame \<Rightarrow> frame \<Rightarrow> bool" where
  "split_taken df out =
     (''location_coordinates'' \<in> set (columns df) \<and>
      (''latitude'' \<notin> set (columns out) \<or> ''longitude'' \<notin> set (columns out)))"

definition split_coordinates :: "frame \<Rightarrow> frame \<Rightarrow> error + frame" where
  "split_coordinates df out =
     (if split_taken df out then
        and_then (get_series df ''location_coordinates'') (\<lambda>s.
          let coords = str_split_expand CHR '','' s in
          and_then (coords_col coords 0) (\<lambda>c0.
          and_then (frame_get out ''latitude'' c0) (\<lambda>lat.
          let out1 = set_series out ''latitude'' lat in
          and_then (coords_col coords 1) (\<lambda>c1.
          and_then (frame_get out1 ''longitude'' c1) (\<lambda>lon.
          Inr (set_series out1 ''longitude'' lon))))))
      else Inr out)"

text \<open>Step 3: a required column that is not a label of \<open>out\<close> is filled with blanks.\<close>

fun fill_missing :: "string list \<Rightarrow> frame \<Rightarrow> frame" where
  "fill_missing [] out = out"
| "fill_missing (col # rest) out =
     fill_missing rest (if col \<notin> set (columns out) then set_scalar out col (Some []) else out)"

text \<open>Step 4: the mobile number becomes the contact when every contact is blank.\<close>

definition contact_fallback :: "frame \<Rightarrow> frame \<Rightarrow> error + frame" where
  "contact_fallback df out =
     (if ''mobile_number'' \<in> set (columns df) then
        and_then (get_series out ''contact'') (\<lambda>c.
          if list_all (\<lambda>x. x = Some []) c
          then and_then (getitem df ''mobile_number'') (setitem out ''contact'')
          else Inr out)
      else Inr out)"

text \<open>
  Step 5. \<open>float\<close> of a missing cell is the NaN it holds; \<open>good_lat\<close> and \<open>good_lon\<close>
  turn every exception into \<open>False\<close>. The doubles next above 90 and 180 are
  \<open>90 + 2^-46\<close> and \<open>180 + 2^-45\<close>.
\<close>

definition py_float :: "cell \<Rightarrow> pyfloat option" where
  "py_float x = (case x of None \<Rightarrow> Some NaN | Some s \<Rightarrow> float_str s)"

definition half_ulp_90 :: rat where
  "half_ulp_90 = 1 / 2 ^ 47"

definition half_ulp_180 :: rat where
  "half_ulp_180 = 1 / 2 ^ 46"

definition good_lat :: "cell \<Rightarrow> bool" where
  "good_lat x = (case py_float x of None \<Rightarrow> False | Some f \<Rightarrow> in_bound 90 half_ulp_90 f)"

definition good_lon :: "cell \<Rightarrow> bool" where
  "good_lon x = (case py_float x of None \<Rightarrow> False | Some f \<Rightarrow> in_bound 180 half_ulp_180 f)"

definition geo_filter :: "frame \<Rightarrow> error + frame" where
  "geo_filter out =
     and_then (get_series out ''latitude'') (\<lambda>lat.
     and_then (get_series out ''longitude'') (\<lambda>lon.
       Inr (select_rows (map2 (\<and>) (map good_lat lat) (map good_lon lon)) out)))"

text \<open>Step 6: no essential field missing, and \<open>name\<close>, \<open>type\<close>, \<open>contact\<close> not \<open>""\<close>.\<close>

definition essentials :: "string list" where
  "essentials = [''name'', ''type'', ''latitude'', ''longitude'', ''contact'']"

definition not_blank :: "cell \<Rightarrow> bool" where
  "not_blank c = (c \<noteq> Some [])"

definition query_not_blank :: "frame \<Rightarrow> error + frame" where
  "query_not_blank out =
     and_then (get_series out ''name'') (\<lambda>n.
     and_then (get_series out ''type'') (\<lambda>t.
     and_then (get_series out ''contact'') (\<lambda>c.
       Inr (select_rows
              (map2 (\<and>) (map2 (\<and>) (map not_blank n) (map not_blank t)) (map not_blank c))
              out))))"

text \<open>Step 7: the defaults of the optional columns.\<close>

definition fill_defaults :: "frame \<Rightarrow> error + frame" where
  "fill_defaults out =
     and_then (get_series out ''inventory'') (\<lambda>inv.
     let out1 = set_series out ''inventory'' (fillna [] inv) in
     and_then (get_series out1 ''last_updated'') (\<lambda>lu.
     let out2 = set_series out1 ''last_updated'' (fillna [] lu) in
     and_then (get_series out2 ''supported_disasters'') (\<lambda>sd.
       Inr (set_series out2 ''supported_disasters'' (replace_val [] ''General'' sd)))))"

text \<open>The frame before the row filters (steps 1 to 4), and the whole function.\<close>

definition before_filters :: "frame \<Rightarrow> error + frame" where
  "before_filters df0 =
     (let df = normalise_header df0 in
      and_then (map_aliases df ALIASES (empty_frame REQUIRED_COLS)) (\<lambda>out1.
      and_then (split_coordinates df out1) (\<lambda>out2.
        contact_fallback df (fill_missing REQUIRED_COLS out2))))"

definition standardise_columns :: "frame \<Rightarrow> error + frame" where
  "standardise_columns df0 =
     and_then (before_filters df0) (\<lambda>out4.
     and_then (geo_filter out4) (\<lambda>out5.
     and_then (dropna essentials out5) (\<lambda>out6.
     and_then (query_not_blank out6) fill_defaults)))"

section \<open>Reading the result\<close>

text \<open>
  \<open>column out label\<close> is the column of a frame whose labels are distinct (empty when the
  label is absent). \<open>row_ok\<close> collects, for one row, the tests of steps 5 and 6 on its
  name, type, latitude, longitude and contact cells.
\<close>

definition column :: "frame \<Rightarrow> string \<Rightarrow> series" where
  "column out label = (case get_series out label of Inl e \<Rightarrow> [] | Inr s \<Rightarrow> s)"

definition row_ok :: "cell \<Rightarrow> cell \<Rightarrow> cell \<Rightarrow> cell \<Rightarrow> cell \<Rightarrow> bool" where
  "row_ok nm ty la lo ct =
     ((good_lat la \<and> good_lon lo) \<and>
      (nm \<noteq> None \<and> ty \<noteq> None \<and> la \<noteq> None \<and> lo \<noteq> None \<and> ct \<noteq> None) \<and>
      (not_blank nm \<and> not_blank ty \<and> not_blank ct))"

text \<open>
  Two shapes of frames with the eight canonical labels: \<open>tab I f\<^sub>1 \<dots> f\<^sub>8\<close> has the cells
  \<open>f\<^sub>k i\<close> for the row numbers \<open>i\<close> of the list \<open>I\<close>; \<open>raw_tab n a b c d g\<close> has the five
  aliasable columns given and NaN in the three others.
\<close>

definition tab :: "nat list \<Rightarrow> (nat \<Rightarrow> cell) \<Rightarrow> (nat \<Rightarrow> cell) \<Rightarrow> (nat \<Rightarrow> cell) \<Rightarrow> (nat \<Rightarrow> cell) \<Rightarrow>
    (nat \<Rightarrow> cell) \<Rightarrow> (nat \<Rightarrow> cell) \<Rightarrow> (nat \<Rightarrow> cell) \<Rightarrow> (nat \<Rightarrow> cell) \<Rightarrow> frame" where
  "tab I fa fb fc fd fe ff fg fh =
     \<lparr>nrows = length I,
      cols = [(''name'', map fa I), (''type'', map fb I), (''latitude'', map fc I),
              (''longitude'', map fd I), (''inventory'', map fe I),
              (''last_updated'', map ff I), (''contact'', map fg I),
              (''supported_disasters'', map fh I)]\<rparr>"

definition raw_tab :: "nat \<Rightarrow> series \<Rightarrow> series \<Rightarrow> series \<Rightarrow> series \<Rightarrow> series \<Rightarrow> frame" where
  "raw_tab n a b c d g =
     \<lparr>nrows = n,
      cols = [(''name'', a), (''type'', b), (''latitude'', c), (''longitude'', d),
              (''inventory'', replicate n None), (''last_updated'', replicate n None),
              (''contact'', g), (''supported_disasters'', replicate n None)]\<rparr>"

definition shaped :: "frame \<Rightarrow> bool" where
  "shaped out \<longleftrightarrow>
     (\<exists>a b c d g. out = raw_tab (nrows out) a b c d g \<and> length a = nrows out \<and>
        length b = nrows out \<and> length c = nrows out \<and> length d = nrows out \<and>
        length g = nrows out)"

definition targets :: "string set" where
  "targets = {''name'', ''type'', ''latitude'', ''longitude'', ''contact''}"

text \<open>\<open>keep a b c d g i\<close>: row \<open>i\<close> of the five aliasable columns passes steps 5 and 6.\<close>

definition keep :: "series \<Rightarrow> series \<Rightarrow> series \<Rightarrow> series \<Rightarrow> series \<Rightarrow> nat \<Rightarrow> bool" where
  "keep a b c d g i = row_ok (a ! i) (b ! i) (c ! i) (d ! i) (g ! i)"

text \<open>
  \<open>kept_rows pre\<close>: the row numbers of the frame before the filters that pass steps 5
  and 6, in order. \<open>candidates\<close> reads the alias dictionary; \<open>well_formed\<close> says that
  every column has as many cells as the frame has rows.
\<close>

definition kept_rows :: "frame \<Rightarrow> nat list" where
  "kept_rows pre =
     filter (\<lambda>i. row_ok (column pre ''name'' ! i) (column pre ''type'' ! i)
                     (column pre ''latitude'' ! i) (column pre ''longitude'' ! i)
                     (column pre ''contact'' ! i))
       [0..<nrows pre]"

definition candidates :: "string \<Rightarrow> string list" where
  "candidates target = (case map_of ALIASES target of None \<Rightarrow> [] | Some cs \<Rightarrow> cs)"

definition well_formed :: "frame \<Rightarrow> bool" where
  "well_formed df = list_all (\<lambda>p. length (snd p) = nrows df) (cols df)"

text \<open>
  The three optional columns of the schema, and an input without the columns whose
  header normalises to one of them.
\<close>

definition optional_cols :: "string list" where
  "optional_cols = [''inventory'', ''last_updated'', ''supported_disasters'']"

definition drop_optional :: "frame \<Rightarrow> frame" where
  "drop_optional df =
     df\<lparr>cols := filter (\<lambda>p. lower (strip (fst p)) \<notin> set optional_cols) (cols df)\<rparr>"

section \<open>The disaster tags of \<open>map_utils.py\<close>\<close>

text \<open>
  \<open>load_relief_centers\<close> rewrites the column \<open>supported_disasters\<close>, cell by cell: a
  missing cell becomes \<open>""\<close>, every run of whitespace is deleted, and the rest is cut at
  each \<open>|\<close> and each comma. The cell then holds a list; \<open>filter_by_disaster\<close> tests
  for one (\<open>isinstance(lst, list)\<close>), so a cell of a frame that was not loaded this way
  is \<open>NotList\<close>. A row of the frame is its cell together with the rest of the row.
\<close>

datatype tagval = TagList "string list" | NotList

definition is_sep :: "char \<Rightarrow> bool" where
  "is_sep c = (c = CHR ''|'' \<or> c = CHR '','')"

definition split_tags :: "cell \<Rightarrow> string list" where
  "split_tags c =
     split_by is_sep (filter (\<lambda>x. \<not> is_space x) (case c of None \<Rightarrow> [] | Some s \<Rightarrow> s))"

definition load_relief_centers :: "('r \<times> cell) list \<Rightarrow> ('r \<times> tagval) list" where
  "load_relief_centers rows = map (\<lambda>r. (fst r, TagList (split_tags (snd r)))) rows"

definition matches :: "string \<Rightarrow> tagval \<Rightarrow> bool" where
  "matches disaster lst =
     (case lst of
        NotList \<Rightarrow> False
      | TagList items \<Rightarrow>
          list_ex (\<lambda>item. disaster = lower item) (filter (\<lambda>item. item \<noteq> []) items))"

definition filter_by_disaster :: "('r \<times> tagval) list \<Rightarrow> string \<Rightarrow> ('r \<times> tagval) list" where
  "filter_by_disaster df disaster = filter (\<lambda>r. matches (lower disaster) (snd r)) df"

section \<open>The encoding of an uploaded CSV file\<close>

text \<open>
  \<open>detect_encoding\<close> of \<open>app.py\<close>. The guesser \<open>chardet.detect\<close> is a parameter: it
  reads bytes and reports an encoding name or none.
\<close>

type_synonym byte = "8 word"

definition detect_encoding :: "(byte list \<Rightarrow> string option) \<Rightarrow> byte list \<Rightarrow> string" where
  "detect_encoding guess raw_bytes =
     (let enc = lower (case guess (take 50000 raw_bytes) of None \<Rightarrow> [] | Some e \<Rightarrow> e)
      in if enc \<in> set ['''', ''ascii'', ''unknown''] then ''latin1'' else enc)"

text \<open>
  The decoding that \<open>read_csv\<close> starts with, to a list of code points. Latin-1 maps
  every byte to the code point of the same number. UTF-8 follows the table of
  well-formed byte sequences of the Unicode standard, as the codec of Python does, and
  \<open>utf-8-sig\<close> is UTF-8 after an optional byte order mark. Every other codec is the
  parameter \<open>codec\<close>. A failed decoding is the \<open>UnicodeDecodeError\<close> that aborts the read.
\<close>

definition continuation :: "byte \<Rightarrow> bool" where
  "continuation b = (128 \<le> unat b \<and> unat b \<le> 191)"

fun utf8_decode :: "byte list \<Rightarrow> nat list option" where
  "utf8_decode [] = Some []"
| "utf8_decode (b # bs) =
     (let n = unat b in
      if n < 128 then map_option ((#) n) (utf8_decode bs)
      else if 194 \<le> n \<and> n \<le> 223 then
        (case bs of
           b1 # r \<Rightarrow>
             if continuation b1
             then map_option ((#) ((n - 192) * 64 + (unat b1 - 128))) (utf8_decode r)
             else None
         | _ \<Rightarrow> None)
      else if 224 \<le> n \<and> n \<le> 239 then
        (case bs of
           b1 # b2 # r \<Rightarrow>
             if continuation b1 \<and> continuation b2 \<and>
                (if n = 224 then 160 \<le> unat b1 else True) \<and>
                (if n = 237 then unat b1 \<le> 159 else True)
             then map_option ((#) ((n - 224) * 4096 + (unat b1 - 128) * 64 + (unat b2 - 128)))
                    (utf8_decode r)
             else None
         | _ \<Rightarrow> None)
      else if 240 \<le> n \<and> n \<le> 244 then
        (case bs of
           b1 # b2 # b3 # r \<Rightarrow>
             if continuation b1 \<and> continuation b2 \<and> continuation b3 \<and>
                (if n = 240 then 144 \<le> unat b1 else True) \<and>
                (if n = 244 then unat b1 \<le> 143 else True)
             then map_option ((#) ((n - 240) * 262144 + (unat b1 - 128) * 4096 +
                                    (unat b2 - 128) * 64 + (unat b3 - 128)))
                    (utf8_decode r)
             else None
         | _ \<Rightarrow> None)
      else None)"

definition byte_order_mark :: "byte list" where
  "byte_order_mark = [239, 187, 191]"

definition decode :: "(string \<Rightarrow> byte list \<Rightarrow> nat list option) \<Rightarrow> string \<Rightarrow> byte list \<Rightarrow>
    error + nat list" where
  "decode codec enc raw =
     (case (if enc = ''latin1'' then Some (map unat raw)
            else if enc = ''utf-8'' then utf8_decode raw
            else if enc = ''utf-8-sig''
            then utf8_decode (if take 3 raw = byte_order_mark then drop 3 raw else raw)
            else codec enc raw) of
        None \<Rightarrow> Inl UnicodeDecodeError
      | Some t \<Rightarrow> Inr t)"

text \<open>
  The CSV branch of \<open>read_any_file\<close> up to the decoded text: the encoding is detected
  on the bytes and the same bytes are decoded with it.
\<close>

definition read_csv_text :: "(byte list \<Rightarrow> string option) \<Rightarrow>
    (string \<Rightarrow> byte list \<Rightarrow> nat list option) \<Rightarrow> byte list \<Rightarrow> error + nat list" where
  "read_csv_text guess codec raw = decode codec (detect_encoding guess raw) raw"

text \<open>
  The first rule of the guesser: bytes that begin with the UTF-8 byte order mark are
  reported as \<open>UTF-8-SIG\<close>; \<open>bom_guess\<close> is a guesser that knows this rule only.
\<close>

definition bom_guess :: "byte list \<Rightarrow> string option" where
  "bom_guess raw = (if take 3 raw = byte_order_mark then Some ''UTF-8-SIG'' else None)"

section \<open>Basic facts about the frame operations\<close>

lemma and_then_Inr [simp]: "and_then (Inr x) f = f x"
  by (simp add: and_then_def)

lemma and_then_Inl [simp]: "and_then (Inl e) f = Inl e"
  by (simp add: and_then_def)

lemma and_then_eq_Inr: "and_then m f = Inr y \<longleftrightarrow> (\<exists>x. m = Inr x \<and> f x = Inr y)"
  by (cases m) auto

lemma select_map: "select (map Q I) (map f I) = map f (filter Q I)"
  by (induction I) (auto simp: select_def)

lemma count_map: "length (filter id (take (length I) (map Q I))) = length (filter Q I)"
  by (induction I) auto

lemma conj_map: "map2 (\<and>) (map P I) (map Q I) = map (\<lambda>i. P i \<and> Q i) I"
  by (induction I) auto

lemma select_rows_tab:
  "select_rows (map Q I) (tab I fa fb fc fd fe ff fg fh) = tab (filter Q I) fa fb fc fd fe ff fg fh"
  by (simp add: select_rows_def tab_def select_map count_map)

lemma get_series_tab:
  "get_series (tab I fa fb fc fd fe ff fg fh) ''name'' = Inr (map fa I)"
  "get_series (tab I fa fb fc fd fe ff fg fh) ''type'' = Inr (map fb I)"
  "get_series (tab I fa fb fc fd fe ff fg fh) ''latitude'' = Inr (map fc I)"
  "get_series (tab I fa fb fc fd fe ff fg fh) ''longitude'' = Inr (map fd I)"
  "get_series (tab I fa fb fc fd fe ff fg fh) ''inventory'' = Inr (map fe I)"
  "get_series (tab I fa fb fc fd fe ff fg fh) ''last_updated'' = Inr (map ff I)"
  "get_series (tab I fa fb fc fd fe ff fg fh) ''contact'' = Inr (map fg I)"
  "get_series (tab I fa fb fc fd fe ff fg fh) ''supported_disasters'' = Inr (map fh I)"
  by (simp_all add: get_series_def getitem_def tab_def)

lemma geo_filter_tab:
  "geo_filter (tab I fa fb fc fd fe ff fg fh) =
     Inr (tab (filter (\<lambda>i. good_lat (fc i) \<and> good_lon (fd i)) I) fa fb fc fd fe ff fg fh)"
  by (simp add: geo_filter_def get_series_tab conj_map select_rows_tab)

lemma true_map: "replicate (length I) True = map (\<lambda>i. True) I"
  by (induction I) auto

lemma dropna_tab:
  "dropna essentials (tab I fa fb fc fd fe ff fg fh) =
     Inr (tab (filter (\<lambda>i. fa i \<noteq> None \<and> fb i \<noteq> None \<and> fc i \<noteq> None \<and> fd i \<noteq> None \<and> fg i \<noteq> None) I)
            fa fb fc fd fe ff fg fh)"
proof -
  have n: "nrows (tab I fa fb fc fd fe ff fg fh) = length I"
    by (simp add: tab_def)
  show ?thesis
    by (simp add: dropna_def essentials_def get_series_tab n true_map conj_map select_rows_tab)
qed

lemma query_tab:
  "query_not_blank (tab I fa fb fc fd fe ff fg fh) =
     Inr (tab (filter (\<lambda>i. (not_blank (fa i) \<and> not_blank (fb i)) \<and> not_blank (fg i)) I)
            fa fb fc fd fe ff fg fh)"
  by (simp add: query_not_blank_def get_series_tab conj_map select_rows_tab)


lemma align_same: "length s = n \<Longrightarrow> align n s = s"
  by (simp add: align_def)

lemma length_align [simp]: "length (align n s) = n"
  by (simp add: align_def)

lemma fill_defaults_tab:
  "fill_defaults (tab I fa fb fc fd fe ff fg fh) =
     Inr (tab I fa fb fc fd (\<lambda>i. fill_cell [] (fe i)) (\<lambda>i. fill_cell [] (ff i)) fg
            (\<lambda>i. replace_cell [] ''General'' (fh i)))"
  by (simp add: fill_defaults_def get_series_def getitem_def tab_def set_series_def put_col_def
      fillna_def replace_val_def align_same o_def)

lemma set_series_raw_tab:
  "set_series (raw_tab n a b c d g) ''name'' s =
     (if n = 0 \<and> s \<noteq> [] then raw_tab (length s) s (replicate (length s) None)
        (replicate (length s) None) (replicate (length s) None) (replicate (length s) None)
      else raw_tab n (align n s) b c d g)"
  "set_series (raw_tab n a b c d g) ''type'' s =
     (if n = 0 \<and> s \<noteq> [] then raw_tab (length s) (replicate (length s) None) s
        (replicate (length s) None) (replicate (length s) None) (replicate (length s) None)
      else raw_tab n a (align n s) c d g)"
  "set_series (raw_tab n a b c d g) ''latitude'' s =
     (if n = 0 \<and> s \<noteq> [] then raw_tab (length s) (replicate (length s) None)
        (replicate (length s) None) s (replicate (length s) None) (replicate (length s) None)
      else raw_tab n a b (align n s) d g)"
  "set_series (raw_tab n a b c d g) ''longitude'' s =
     (if n = 0 \<and> s \<noteq> [] then raw_tab (length s) (replicate (length s) None)
        (replicate (length s) None) (replicate (length s) None) s (replicate (length s) None)
      else raw_tab n a b c (align n s) g)"
  "set_series (raw_tab n a b c d g) ''contact'' s =
     (if n = 0 \<and> s \<noteq> [] then raw_tab (length s) (replicate (length s) None)
        (replicate (length s) None) (replicate (length s) None) (replicate (length s) None) s
      else raw_tab n a b c d (align n s))"
  by (simp_all add: set_series_def raw_tab_def put_col_def)

lemma nrows_raw_tab [simp]: "nrows (raw_tab n a b c d g) = n"
  by (simp add: raw_tab_def)

lemma shapedI:
  "length a = n \<Longrightarrow> length b = n \<Longrightarrow> length c = n \<Longrightarrow> length d = n \<Longrightarrow> length g = n \<Longrightarrow>
   shaped (raw_tab n a b c d g)"
  unfolding shaped_def by (intro exI[of _ a] exI[of _ b] exI[of _ c] exI[of _ d] exI[of _ g]) simp

lemma set_series_shaped:
  assumes "shaped out" and "target \<in> targets"
  shows "shaped (set_series out target s)"
proof -
  from assms(1) obtain a b c d g where
    o: "out = raw_tab (nrows out) a b c d g" and
    l: "length a = nrows out" "length b = nrows out" "length c = nrows out"
       "length d = nrows out" "length g = nrows out"
    unfolding shaped_def by blast
  from assms(2) consider "target = ''name''" | "target = ''type''" | "target = ''latitude''"
    | "target = ''longitude''" | "target = ''contact''"
    unfolding targets_def by blast
  then show ?thesis
  proof cases
    case 1
    show ?thesis
      by (subst o, simp only: 1 set_series_raw_tab) (auto intro!: shapedI simp: l)
  next
    case 2
    show ?thesis
      by (subst o, simp only: 2 set_series_raw_tab) (auto intro!: shapedI simp: l)
  next
    case 3
    show ?thesis
      by (subst o, simp only: 3 set_series_raw_tab) (auto intro!: shapedI simp: l)
  next
    case 4
    show ?thesis
      by (subst o, simp only: 4 set_series_raw_tab) (auto intro!: shapedI simp: l)
  next
    case 5
    show ?thesis
      by (subst o, simp only: 5 set_series_raw_tab) (auto intro!: shapedI simp: l)
  qed
qed

section \<open>The frame before the row filters\<close>

lemma setitem_shaped:
  "shaped out \<Longrightarrow> target \<in> targets \<Longrightarrow> setitem out target v = Inr out' \<Longrightarrow> shaped out'"
  by (cases v) (auto simp: setitem_def set_series_shaped)

lemma map_target_shaped:
  "shaped out \<Longrightarrow> target \<in> targets \<Longrightarrow> map_target df target cands out = Inr out' \<Longrightarrow> shaped out'"
proof (induction cands)
  case Nil
  then show ?case by simp
next
  case (Cons cand rest)
  show ?case
  proof (cases "cand \<in> set (columns df)")
    case True
    with Cons.prems(3) obtain v where "setitem out target v = Inr out'"
      by (auto simp: and_then_eq_Inr)
    with Cons.prems(1,2) show ?thesis by (rule setitem_shaped)
  next
    case False
    with Cons show ?thesis by simp
  qed
qed

lemma map_aliases_shaped:
  "shaped out \<Longrightarrow> fst ` set al \<subseteq> targets \<Longrightarrow> map_aliases df al out = Inr out' \<Longrightarrow> shaped out'"
proof (induction al arbitrary: out)
  case Nil
  then show ?case by simp
next
  case (Cons tc rest)
  from Cons.prems(3) obtain mid where
    m: "map_target df (fst tc) (snd tc) out = Inr mid" and r: "map_aliases df rest mid = Inr out'"
    by (auto simp: and_then_eq_Inr)
  from Cons.prems(2) have t: "fst tc \<in> targets" and ts: "fst ` set rest \<subseteq> targets" by auto
  from map_target_shaped[OF Cons.prems(1) t m] have "shaped mid" .
  from Cons.IH[OF this ts r] show ?case .
qed

lemma ALIASES_targets: "fst ` set ALIASES \<subseteq> targets"
  by (simp add: ALIASES_def targets_def)

lemma empty_frame_shaped: "shaped (empty_frame REQUIRED_COLS)"
proof -
  have "empty_frame REQUIRED_COLS = raw_tab 0 [] [] [] [] []"
    by (simp add: empty_frame_def REQUIRED_COLS_def raw_tab_def)
  then show ?thesis by (simp add: shapedI)
qed

lemma columns_raw_tab: "columns (raw_tab n a b c d g) = REQUIRED_COLS"
  by (simp add: raw_tab_def columns_def REQUIRED_COLS_def)

lemma columns_shaped: "shaped out \<Longrightarrow> columns out = REQUIRED_COLS"
  unfolding shaped_def by (metis columns_raw_tab)

lemma split_not_taken: "shaped out \<Longrightarrow> \<not> split_taken df out"
  by (simp add: split_taken_def columns_shaped REQUIRED_COLS_def)

lemma split_coordinates_shaped: "shaped out \<Longrightarrow> split_coordinates df out = Inr out"
  by (simp add: split_coordinates_def split_not_taken)

lemma fill_missing_shaped: "shaped out \<Longrightarrow> fill_missing REQUIRED_COLS out = out"
  by (frule columns_shaped) (simp add: REQUIRED_COLS_def)

lemma contact_fallback_shaped:
  "shaped out \<Longrightarrow> contact_fallback df out = Inr out' \<Longrightarrow> shaped out'"
  by (auto simp: contact_fallback_def and_then_eq_Inr targets_def split: if_splits
      intro: setitem_shaped)

lemma before_filters_shaped: "before_filters df = Inr out \<Longrightarrow> shaped out"
proof -
  assume a: "before_filters df = Inr out"
  let ?d = "normalise_header df"
  from a obtain o1 o2 where
    1: "map_aliases ?d ALIASES (empty_frame REQUIRED_COLS) = Inr o1" and
    2: "split_coordinates ?d o1 = Inr o2" and
    3: "contact_fallback ?d (fill_missing REQUIRED_COLS o2) = Inr out"
    by (auto simp: before_filters_def Let_def and_then_eq_Inr)
  have s1: "shaped o1" by (rule map_aliases_shaped[OF empty_frame_shaped ALIASES_targets 1])
  with 2 have "o2 = o1" by (simp add: split_coordinates_shaped)
  with s1 3 have "contact_fallback ?d o1 = Inr out" by (simp add: fill_missing_shaped)
  with s1 show ?thesis by (rule contact_fallback_shaped)
qed

section \<open>The shape of the result\<close>

lemma raw_tab_as_tab:
  assumes "length a = n" "length b = n" "length c = n" "length d = n" "length g = n"
  shows "raw_tab n a b c d g =
         tab [0..<n] ((!) a) ((!) b) ((!) c) ((!) d) (\<lambda>i. None) (\<lambda>i. None) ((!) g) (\<lambda>i. None)"
proof -
  have m: "\<And>xs::series. length xs = n \<Longrightarrow> map ((!) xs) [0..<n] = xs"
    by (metis map_nth)
  have r: "map (\<lambda>i. None :: cell) [0..<n] = replicate n None"
    by (simp add: map_replicate_const)
  show ?thesis
    by (simp add: raw_tab_def tab_def m assms r)
qed

lemma filters_tab:
  "and_then (geo_filter (tab I fa fb fc fd fe ff fg fh)) (\<lambda>out5.
     and_then (dropna essentials out5) (\<lambda>out6.
     and_then (query_not_blank out6) fill_defaults)) =
   Inr (tab (filter (\<lambda>i. row_ok (fa i) (fb i) (fc i) (fd i) (fg i)) I) fa fb fc fd
          (\<lambda>i. fill_cell [] (fe i)) (\<lambda>i. fill_cell [] (ff i)) fg
          (\<lambda>i. replace_cell [] ''General'' (fh i)))"
proof -
  have "filter (\<lambda>i. (not_blank (fa i) \<and> not_blank (fb i)) \<and> not_blank (fg i))
          (filter (\<lambda>i. fa i \<noteq> None \<and> fb i \<noteq> None \<and> fc i \<noteq> None \<and> fd i \<noteq> None \<and> fg i \<noteq> None)
            (filter (\<lambda>i. good_lat (fc i) \<and> good_lon (fd i)) I)) =
        filter (\<lambda>i. row_ok (fa i) (fb i) (fc i) (fd i) (fg i)) I"
    by (auto simp: row_ok_def intro: filter_cong)
  then show ?thesis
    by (simp only: geo_filter_tab dropna_tab query_tab fill_defaults_tab and_then_Inr)
qed

lemma standardise_columns_form:
  assumes "standardise_columns df = Inr out"
  shows "\<exists>n a b c d g. before_filters df = Inr (raw_tab n a b c d g) \<and>
           length a = n \<and> length b = n \<and> length c = n \<and> length d = n \<and> length g = n \<and>
           out = tab (filter (keep a b c d g) [0..<n]) ((!) a) ((!) b) ((!) c) ((!) d)
                   (\<lambda>i. Some []) (\<lambda>i. Some []) ((!) g) (\<lambda>i. None)"
proof -
  from assms obtain o4 where
    b: "before_filters df = Inr o4" and
    f: "and_then (geo_filter o4) (\<lambda>out5. and_then (dropna essentials out5)
          (\<lambda>out6. and_then (query_not_blank out6) fill_defaults)) = Inr out"
    by (auto simp: standardise_columns_def and_then_eq_Inr)
  from before_filters_shaped[OF b] obtain a b' c d g where
    o: "o4 = raw_tab (nrows o4) a b' c d g" and
    l: "length a = nrows o4" "length b' = nrows o4" "length c = nrows o4"
       "length d = nrows o4" "length g = nrows o4"
    unfolding shaped_def by blast
  let ?n = "nrows o4"
  have t: "o4 = tab [0..<?n] ((!) a) ((!) b') ((!) c) ((!) d) (\<lambda>i. None) (\<lambda>i. None) ((!) g) (\<lambda>i. None)"
    using o raw_tab_as_tab[OF l] by simp
  have "out = tab (filter (keep a b' c d g) [0..<?n]) ((!) a) ((!) b') ((!) c) ((!) d)
                   (\<lambda>i. Some []) (\<lambda>i. Some []) ((!) g) (\<lambda>i. None)"
    using f by (subst (asm) t) (simp add: filters_tab keep_def[abs_def] fill_cell_def replace_cell_def)
  moreover have "before_filters df = Inr (raw_tab ?n a b' c d g)"
    using b o by simp
  ultimately show ?thesis using l by blast
qed

section \<open>Every row of the result is valid\<close>

lemma column_tab:
  "column (tab I fa fb fc fd fe ff fg fh) ''name'' = map fa I"
  "column (tab I fa fb fc fd fe ff fg fh) ''type'' = map fb I"
  "column (tab I fa fb fc fd fe ff fg fh) ''latitude'' = map fc I"
  "column (tab I fa fb fc fd fe ff fg fh) ''longitude'' = map fd I"
  "column (tab I fa fb fc fd fe ff fg fh) ''inventory'' = map fe I"
  "column (tab I fa fb fc fd fe ff fg fh) ''last_updated'' = map ff I"
  "column (tab I fa fb fc fd fe ff fg fh) ''contact'' = map fg I"
  "column (tab I fa fb fc fd fe ff fg fh) ''supported_disasters'' = map fh I"
  by (simp_all add: column_def get_series_tab)

lemma columns_tab: "columns (tab I fa fb fc fd fe ff fg fh) = REQUIRED_COLS"
  by (simp add: tab_def columns_def REQUIRED_COLS_def)

lemma nrows_tab: "nrows (tab I fa fb fc fd fe ff fg fh) = length I"
  by (simp add: tab_def)

lemma good_lat_parsed:
  "good_lat x \<Longrightarrow> \<exists>s f. x = Some s \<and> float_str s = Some f \<and> in_bound 90 half_ulp_90 f"
  by (cases x) (auto simp: good_lat_def py_float_def split: option.splits)

lemma good_lon_parsed:
  "good_lon x \<Longrightarrow> \<exists>s f. x = Some s \<and> float_str s = Some f \<and> in_bound 180 half_ulp_180 f"
  by (cases x) (auto simp: good_lon_def py_float_def split: option.splits)

lemma filled: "x \<noteq> None \<Longrightarrow> not_blank x \<Longrightarrow> \<exists>s. x = Some s \<and> s \<noteq> []"
  by (cases x) (auto simp: not_blank_def)

lemma kept_cells:
  assumes "\<And>i. P i \<Longrightarrow> Q (f i)"
  shows "\<forall>x \<in> set (map f (filter P I)). Q x"
  using assms by auto

text \<open>
  Claim C1. Whenever \<open>standardise_columns\<close> returns a table, the table has the eight
  required columns, all of the same length, and in every row the latitude is a string
  that \<open>float\<close> parses to a number between -90 and 90, the longitude is a string that
  parses to a number between -180 and 180, and name, type and contact are strings that
  are not empty.
\<close>

theorem output_rows_valid:
  assumes "standardise_columns df = Inr out"
  shows "columns out = REQUIRED_COLS \<and>
         (\<forall>l \<in> set REQUIRED_COLS. length (column out l) = nrows out) \<and>
         (\<forall>x \<in> set (column out ''latitude'').
            \<exists>s f. x = Some s \<and> float_str s = Some f \<and> in_bound 90 half_ulp_90 f) \<and>
         (\<forall>x \<in> set (column out ''longitude'').
            \<exists>s f. x = Some s \<and> float_str s = Some f \<and> in_bound 180 half_ulp_180 f) \<and>
         (\<forall>x \<in> set (column out ''name''). \<exists>s. x = Some s \<and> s \<noteq> []) \<and>
         (\<forall>x \<in> set (column out ''type''). \<exists>s. x = Some s \<and> s \<noteq> []) \<and>
         (\<forall>x \<in> set (column out ''contact''). \<exists>s. x = Some s \<and> s \<noteq> [])"
proof -
  from standardise_columns_form[OF assms] obtain n a b c d g where
    o: "out = tab (filter (keep a b c d g) [0..<n]) ((!) a) ((!) b) ((!) c) ((!) d)
              (\<lambda>i. Some []) (\<lambda>i. Some []) ((!) g) (\<lambda>i. None)"
    by blast
  have k: "\<And>i. keep a b c d g i \<Longrightarrow>
      good_lat (c ! i) \<and> good_lon (d ! i) \<and> a ! i \<noteq> None \<and> b ! i \<noteq> None \<and> g ! i \<noteq> None \<and>
      not_blank (a ! i) \<and> not_blank (b ! i) \<and> not_blank (g ! i)"
    by (simp add: keep_def row_ok_def)
  have 1: "columns out = REQUIRED_COLS" by (simp add: o columns_tab)
  have 2: "\<forall>l \<in> set REQUIRED_COLS. length (column out l) = nrows out"
    by (simp add: o REQUIRED_COLS_def column_tab nrows_tab)
  have 3: "\<forall>x \<in> set (column out ''latitude'').
            \<exists>s f. x = Some s \<and> float_str s = Some f \<and> in_bound 90 half_ulp_90 f"
    unfolding o column_tab by (rule kept_cells) (insert k good_lat_parsed, blast)
  have 4: "\<forall>x \<in> set (column out ''longitude'').
            \<exists>s f. x = Some s \<and> float_str s = Some f \<and> in_bound 180 half_ulp_180 f"
    unfolding o column_tab by (rule kept_cells) (insert k good_lon_parsed, blast)
  have 5: "\<forall>x \<in> set (column out ''name''). \<exists>s. x = Some s \<and> s \<noteq> []"
    unfolding o column_tab by (rule kept_cells) (insert k filled, blast)
  have 6: "\<forall>x \<in> set (column out ''type''). \<exists>s. x = Some s \<and> s \<noteq> []"
    unfolding o column_tab by (rule kept_cells) (insert k filled, blast)
  have 7: "\<forall>x \<in> set (column out ''contact''). \<exists>s. x = Some s \<and> s \<noteq> []"
    unfolding o column_tab by (rule kept_cells) (insert k filled, blast)
  from 1 2 3 4 5 6 7 show ?thesis by blast
qed

text \<open>
  The theorem at a table of two rows under the headers \<open>Name\<close>, \<open>TYPE\<close>, \<open>Lat\<close>,
  \<open>LONG\<close> and \<open>Phone\<close>: the second row has the latitude 91 and is dropped.
\<close>

theorem output_rows_valid_witness:
  "standardise_columns
     \<lparr>nrows = 2,
      cols = [(''Name'', [Some ''Camp A'', Some ''Camp B'']),
              ('' TYPE'', [Some ''Hospital'', Some ''Shelter'']),
              (''Lat '', [Some ''12.9'', Some ''91'']),
              (''LONG'', [Some ''77.6'', Some ''77.6'']),
              (''Phone'', [Some ''100'', Some ''101''])]\<rparr> =
   Inr \<lparr>nrows = 1,
        cols = [(''name'', [Some ''Camp A'']), (''type'', [Some ''Hospital'']),
                (''latitude'', [Some ''12.9'']), (''longitude'', [Some ''77.6'']),
                (''inventory'', [Some []]), (''last_updated'', [Some []]),
                (''contact'', [Some ''100'']), (''supported_disasters'', [None])]\<rparr> \<and>
   list_all (\<lambda>x. \<exists>s f. x = Some s \<and> float_str s = Some f \<and> in_bound 90 half_ulp_90 f)
     (column \<lparr>nrows = 1,
        cols = [(''name'', [Some ''Camp A'']), (''type'', [Some ''Hospital'']),
                (''latitude'', [Some ''12.9'']), (''longitude'', [Some ''77.6'']),
                (''inventory'', [Some []]), (''last_updated'', [Some []]),
                (''contact'', [Some ''100'']), (''supported_disasters'', [None])]\<rparr>
        ''latitude'')"
proof -
  have h: "standardise_columns
     \<lparr>nrows = 2,
      cols = [(''Name'', [Some ''Camp A'', Some ''Camp B'']),
              ('' TYPE'', [Some ''Hospital'', Some ''Shelter'']),
              (''Lat '', [Some ''12.9'', Some ''91'']),
              (''LONG'', [Some ''77.6'', Some ''77.6'']),
              (''Phone'', [Some ''100'', Some ''101''])]\<rparr> =
   Inr \<lparr>nrows = 1,
        cols = [(''name'', [Some ''Camp A'']), (''type'', [Some ''Hospital'']),
                (''latitude'', [Some ''12.9'']), (''longitude'', [Some ''77.6'']),
                (''inventory'', [Some []]), (''last_updated'', [Some []]),
                (''contact'', [Some ''100'']), (''supported_disasters'', [None])]\<rparr>"
    by code_simp
  from output_rows_valid [OF h] show ?thesis
    using h unfolding list_all_iff by blast
qed

end
